theory Spec2Isabelle
  imports Main
begin

section \<open>Common types\<close>

text \<open>
  \<^verbatim>\<open>UUID\<close> and \<^verbatim>\<open>EntityId\<close> are string identifiers; a \<^verbatim>\<open>ClientSession\<close> is the handle
  of a MongoDB session, passed to a repository call as an optional argument.
\<close>

type_synonym UUID = string
type_synonym EntityId = string
type_synonym ClientSession = nat

text \<open>
  Every exception the modelled code raises is a value of \<open>error\<close>. The names are those of the
  specification's taxonomy; \<open>MatchNotFound\<close> and \<open>OrderNotFound\<close> are the
  \<^verbatim>\<open>Code.ENTITY_NOT_FOUND_ERROR\<close> exceptions, \<open>ServiceUnavailable\<close> is the
  \<^verbatim>\<open>Code.INTERNAL_ERROR\<close> exception of \<^verbatim>\<open>serviceAvailabileOrThrow\<close>, \<open>IncompleteItems\<close> is the
  FORBIDDEN exception of \<^verbatim>\<open>finalizeOrder\<close> with its data \<^verbatim>\<open>{ orderId, notFinalizedItemIds }\<close>,
  \<open>CustomerUpdateError\<close> is the \<^verbatim>\<open>Code.INTERNAL_ERROR\<close> exception of \<^verbatim>\<open>addOrderToCustomer\<close>,
  \<open>DuplicateMatch\<close> is the driver's rejection of a second document with one \<^verbatim>\<open>_id\<close>,
  \<open>TypeError\<close> is JavaScript's own and \<open>StripeError\<close> a rejection by the payment gateway.
\<close>

datatype error =
    OrderNotFound
  | ServiceUnavailable
  | NoHostAvailable
  | DuplicateMatch
  | MatchNotFound
  | IncompleteItems UUID "UUID list"
  | UnrecognizedWebhookPayload
  | CustomerUpdateError
  | TypeError
  | StripeError

section \<open>Customer linkage: \<^verbatim>\<open>CustomerMongoRepositoryAdapter\<close>\<close>

record CustomerMongoDocument =
  customer_id :: UUID
  orderIds :: "UUID list"

record DraftedOrder =
  drafted_id :: UUID
  drafted_customerId :: UUID

text \<open>The \<^verbatim>\<open>customers\<close> collection: documents keyed by their unique \<^verbatim>\<open>_id\<close>.\<close>

type_synonym CustomerCollection = "UUID \<rightharpoonup> CustomerMongoDocument"

text \<open>
  \<^verbatim>\<open>updateOne({ _id }, { $push: { orderIds: orderId } })\<close>: the document with that \<^verbatim>\<open>_id\<close>,
  when there is one, gets the value appended to its array; when there is none the
  collection is left as it is and the call still resolves (with \<^verbatim>\<open>matchedCount\<close> 0).
\<close>

definition updateOne_push_orderIds ::
  "UUID \<Rightarrow> UUID \<Rightarrow> CustomerCollection \<Rightarrow> error + CustomerCollection" where
  "updateOne_push_orderIds customerId orderId coll =
     (case coll customerId of
        None \<Rightarrow> Inr coll
      | Some d \<Rightarrow> Inr (coll(customerId \<mapsto> d\<lparr>orderIds := orderIds d @ [orderId]\<rparr>)))"

text \<open>
  \<^verbatim>\<open>addOrderToCustomer\<close>: one \<^verbatim>\<open>updateOne\<close>, whose rejection is rethrown as an internal error;
  the result of the update (\<^verbatim>\<open>matchedCount\<close>, \<^verbatim>\<open>modifiedCount\<close>) is not looked at.
\<close>

definition addOrderToCustomer ::
  "DraftedOrder \<Rightarrow> ClientSession option \<Rightarrow> CustomerCollection \<Rightarrow> error + CustomerCollection" where
  "addOrderToCustomer order transaction coll =
     (case updateOne_push_orderIds (drafted_customerId order) (drafted_id order) coll of
        Inl e \<Rightarrow> Inl CustomerUpdateError
      | Inr coll' \<Rightarrow> Inr coll')"

section \<open>Match ledger: \<^verbatim>\<open>MatchMongoRecorderAdapter\<close>\<close>

text \<open>
  The adapter builds a \<^verbatim>\<open>Match\<close> from \<^verbatim>\<open>{ orderId, hostId }\<close>. A document of the
  \<^verbatim>\<open>matches\<close> collection has the fields \<^verbatim>\<open>_id\<close> and \<^verbatim>\<open>hostId\<close> that \<^verbatim>\<open>findMatch\<close>
  queries. The two mappers of \<^verbatim>\<open>MatchMongoMapper\<close> are not part of the sources: they are
  parameters of the adapter's functions. \<^verbatim>\<open>mongoDocumentToMatch\<close> is applied to whatever
  \<^verbatim>\<open>findOne\<close> resolved to, \<^verbatim>\<open>null\<close> included, so its argument is an option and its
  result may be an exception.
\<close>

record Match =
  match_orderId :: UUID
  match_hostId :: UUID

record MatchMongoDocument =
  doc_id :: UUID
  doc_hostId :: UUID

type_synonym MatchCollection = "UUID \<rightharpoonup> MatchMongoDocument"

text \<open>\<^verbatim>\<open>insertOne\<close>: the driver rejects a document whose \<^verbatim>\<open>_id\<close> is in the collection already.\<close>

definition insertOne :: "MatchMongoDocument \<Rightarrow> MatchCollection \<Rightarrow> error + MatchCollection" where
  "insertOne d coll =
     (case coll (doc_id d) of
        None \<Rightarrow> Inr (coll(doc_id d \<mapsto> d))
      | Some _ \<Rightarrow> Inl DuplicateMatch)"

text \<open>\<^verbatim>\<open>findOne({ _id })\<close> resolves to the document or to \<^verbatim>\<open>null\<close>.\<close>

definition findOne :: "UUID \<Rightarrow> MatchCollection \<Rightarrow> MatchMongoDocument option" where
  "findOne k coll = coll k"

text \<open>\<^verbatim>\<open>deleteOne({ _id })\<close> removes the document when there is one.\<close>

definition deleteOne :: "UUID \<Rightarrow> MatchCollection \<Rightarrow> MatchCollection" where
  "deleteOne k coll = coll(k := None)"

definition recordMatch ::
  "(Match \<Rightarrow> MatchMongoDocument) \<Rightarrow> UUID \<Rightarrow> UUID \<Rightarrow> ClientSession option \<Rightarrow>
     MatchCollection \<Rightarrow> error + (UUID \<times> MatchCollection)" where
  "recordMatch matchToMongoDocument orderId hostId session coll =
     (let matchId = orderId in
      case insertOne
             (matchToMongoDocument \<lparr>match_orderId = orderId, match_hostId = hostId\<rparr>) coll of
        Inl e \<Rightarrow> Inl e
      | Inr coll' \<Rightarrow> Inr (matchId, coll'))"

definition retrieveAndDeleteMatch ::
  "(MatchMongoDocument option \<Rightarrow> error + Match) \<Rightarrow> UUID \<Rightarrow> ClientSession option \<Rightarrow>
     MatchCollection \<Rightarrow> (error + Match) \<times> MatchCollection" where
  "retrieveAndDeleteMatch mongoDocumentToMatch matchId session coll =
     (let matchDocument = findOne matchId coll;
          coll' = deleteOne matchId coll
      in (mongoDocumentToMatch matchDocument, coll'))"

text \<open>
  \<^verbatim>\<open>findMatch\<close> queries \<^verbatim>\<open>{ _id: orderId, hostId }\<close> and, unlike \<^verbatim>\<open>retrieveAndDeleteMatch\<close>,
  raises the not-found exception itself before it calls the mapper.
\<close>

definition findMatch ::
  "(MatchMongoDocument option \<Rightarrow> error + Match) \<Rightarrow> UUID \<Rightarrow> UUID \<Rightarrow> ClientSession option \<Rightarrow>
     MatchCollection \<Rightarrow> error + Match" where
  "findMatch mongoDocumentToMatch orderId hostId session coll =
     (let matchDocument =
            (case coll orderId of
               None \<Rightarrow> None
             | Some d \<Rightarrow> if doc_hostId d = hostId then Some d else None)
      in case matchDocument of
           None \<Rightarrow> Inl MatchNotFound
         | Some d \<Rightarrow> mongoDocumentToMatch (Some d))"

text \<open>
  A mapper for the examples: it reads the fields of the document, and reading a field of
  \<^verbatim>\<open>null\<close> is a \<^verbatim>\<open>TypeError\<close>.
\<close>

definition example_mongoDocumentToMatch :: "MatchMongoDocument option \<Rightarrow> error + Match" where
  "example_mongoDocumentToMatch d =
     (case d of
        None \<Rightarrow> Inl TypeError
      | Some d \<Rightarrow> Inr \<lparr>match_orderId = doc_id d, match_hostId = doc_hostId d\<rparr>)"

section \<open>Webhook dispatch: \<^verbatim>\<open>StripeCheckoutWebhook\<close>\<close>

text \<open>
  A checkout session as the gateway reports it, and the event that carries it. The metadata
  of a session is a dictionary of strings; the webhook payload is that dictionary.
\<close>

type_synonym StripeCheckoutWebhookPayload = "string \<rightharpoonup> string"

record StripeCheckoutSession =
  session_id :: string
  client_reference_id :: "string option"
  metadata :: StripeCheckoutWebhookPayload

record StripeEvent =
  event_type :: string
  data_object :: StripeCheckoutSession

text \<open>
  Modelled from the spec: the enum \<^verbatim>\<open>FeeType\<close> of \<^verbatim>\<open>IStripeCheckoutWebhook\<close> is not part of
  the sources; the correlation payload format is
  \<^verbatim>\<open>{feeType: "service"|"shipment", matchId | other-fields}\<close>.
\<close>

definition FeeType_Service :: string where
  "FeeType_Service = ''service''"

definition FeeType_Shipment :: string where
  "FeeType_Shipment = ''shipment''"

text \<open>
  The two completion handlers are the constructor's arguments. A handler gets the payload,
  works on a state of its own and resolves to a result or fails.
\<close>

type_synonym ('s, 'r) handler = "StripeCheckoutWebhookPayload \<Rightarrow> 's \<Rightarrow> (error + 'r) \<times> 's"

definition StripeCheckoutWebhook_execute ::
  "('s, 'r) handler \<Rightarrow> ('s, 'r) handler \<Rightarrow> StripeEvent \<Rightarrow> 's \<Rightarrow> (error + 'r) \<times> 's" where
  "StripeCheckoutWebhook_execute confirmOrderWebhookGateway payShipmentWebhookGateway event s =
     (let webhookPayload = metadata (data_object event) in
      case webhookPayload ''feeType'' of
        None \<Rightarrow> (Inl UnrecognizedWebhookPayload, s)
      | Some feeType \<Rightarrow>
          if feeType = FeeType_Service then confirmOrderWebhookGateway webhookPayload s
          else if feeType = FeeType_Shipment then payShipmentWebhookGateway webhookPayload s
          else (Inl UnrecognizedWebhookPayload, s))"

text \<open>Two handlers for the examples: each leaves its name in the state.\<close>

definition example_confirmOrderHandler :: "(string list, string) handler" where
  "example_confirmOrderHandler payload s = (Inr ''confirm-order'', s @ [''confirm-order''])"

definition example_payShipmentHandler :: "(string list, string) handler" where
  "example_payShipmentHandler payload s = (Inr ''pay-shipment'', s @ [''pay-shipment''])"

definition example_event :: "StripeCheckoutWebhookPayload \<Rightarrow> StripeEvent" where
  "example_event payload =
     \<lparr>event_type = ''checkout.session.completed'',
      data_object = \<lparr>session_id = ''cs_1'', client_reference_id = None, metadata = payload\<rparr>\<rparr>"

section \<open>Orders\<close>

text \<open>
  Modelled from the spec: the entity declarations (\<^verbatim>\<open>Order\<close>, \<^verbatim>\<open>Item\<close>, \<^verbatim>\<open>Address\<close>, \<^verbatim>\<open>Host\<close>)
  are not part of the sources. An order has a customer id, an origin country, a destination
  address, an item list, a status, a shipment cost estimate and, optional, a final shipment
  cost, a total weight, an assigned host id and a calculator-result reference; an item has,
  among others, an optional \<^verbatim>\<open>receivedDate\<close> and a sequence of photo references. A date is
  its timestamp.
\<close>

type_synonym Country = string

datatype OrderStatus = Drafted | Confirmed | Finalized

record Address =
  country :: Country

record Cost =
  amount :: int
  currency :: string

record Item =
  item_id :: UUID
  title :: string
  storeName :: string
  receivedDate :: "nat option"
  photos :: "string list"

record Order =
  order_id :: UUID
  customerId :: UUID
  originCountry :: Country
  destination :: Address
  items :: "Item list"
  status :: OrderStatus
  shipmentCost :: Cost
  finalShipmentCost :: "Cost option"
  totalWeight :: "int option"
  hostId :: "UUID option"
  calculatorResultUrl :: "string option"

record Host =
  host_id :: UUID

section \<open>Order confirmation: \<^verbatim>\<open>ConfirmOrder\<close>\<close>

text \<open>
  Modelled from the spec: the port \<^verbatim>\<open>HostMatcher\<close> has no implementation in the sources.
  \<^verbatim>\<open>matchHost(originCountry)\<close> selects an available host and fails with \<open>NoHostAvailable\<close>
  when there is none (here: \<open>None\<close>); \<^verbatim>\<open>checkServiceAvailability\<close> is a lookup without
  side effects.
\<close>

record HostMatcher =
  checkServiceAvailability :: "Country \<Rightarrow> Country \<Rightarrow> bool"
  matchHost :: "Country \<Rightarrow> Host option"

text \<open>
  Modelled from the spec: the port \<^verbatim>\<open>MatchCache\<close> has no implementation in the sources.
  \<^verbatim>\<open>record(matchId, orderId, hostId, txn)\<close> inserts a new record and fails with
  \<open>DuplicateMatch\<close> if the id already exists.
\<close>

record MatchCacheEntry =
  entry_id :: EntityId
  entry_orderId :: UUID
  entry_hostId :: UUID

type_synonym MatchCache = "EntityId \<rightharpoonup> MatchCacheEntry"

definition MatchCache_recordMatch ::
  "MatchCacheEntry \<Rightarrow> ClientSession \<Rightarrow> MatchCache \<Rightarrow> error + MatchCache" where
  "MatchCache_recordMatch m session cache =
     (case cache (entry_id m) of
        None \<Rightarrow> Inr (cache(entry_id m \<mapsto> m))
      | Some _ \<Rightarrow> Inl DuplicateMatch)"

text \<open>
  Modelled from the spec: the port \<^verbatim>\<open>OrderRepository\<close> has no implementation in the sources.
  \<^verbatim>\<open>findOrder(orderId)\<close> loads the order by id and fails with \<open>OrderNotFound\<close> if it is
  missing.
\<close>

definition OrderRepository_findOrder :: "EntityId \<Rightarrow> (UUID \<rightharpoonup> Order) \<Rightarrow> error + Order" where
  "OrderRepository_findOrder orderId store =
     (case store orderId of None \<Rightarrow> Inl OrderNotFound | Some order \<Rightarrow> Inr order)"

text \<open>
  The argument of \<^verbatim>\<open>stripe.checkout.sessions.create\<close>. \<open>req_metadata\<close> is the optional
  \<^verbatim>\<open>metadata\<close> of Stripe's session parameters: \<open>None\<close> when the object handed over has no
  such key.
\<close>

record PriceData =
  price_currency :: string
  unit_amount :: nat
  product_data_name :: string

record LineItem =
  price_data :: PriceData
  quantity :: nat

record SessionCreateParams =
  payment_method_types :: "string list"
  line_items :: "LineItem list"
  req_client_reference_id :: "string option"
  mode :: string
  success_url :: string
  cancel_url :: string
  req_metadata :: "(string \<rightharpoonup> string) option"

text \<open>
  What a run of the use case works on: the order store, the match ledger, the events emitted
  so far and the requests sent to the payment gateway so far.
\<close>

record AppState =
  orders :: "UUID \<rightharpoonup> Order"
  matches :: MatchCache
  events :: "string list"
  checkoutRequests :: "SessionCreateParams list"

definition emit :: "string \<Rightarrow> AppState \<Rightarrow> AppState" where
  "emit event st = st\<lparr>events := events st @ [event]\<rparr>"

definition serviceAvailabileOrThrow :: "HostMatcher \<Rightarrow> Order \<Rightarrow> error + unit" where
  "serviceAvailabileOrThrow hostMatcher order =
     (let isServiceAvailable =
            checkServiceAvailability hostMatcher (originCountry order) (country (destination order))
      in if \<not> isServiceAvailable then Inl ServiceUnavailable else Inr ())"

text \<open>\<open>matchId\<close> is the value that \<^verbatim>\<open>new EntityId()\<close> yields in this run.\<close>

definition matchOrderToHost ::
  "HostMatcher \<Rightarrow> EntityId \<Rightarrow> Order \<Rightarrow> ClientSession \<Rightarrow> AppState \<Rightarrow> (error + EntityId) \<times> AppState" where
  "matchOrderToHost hostMatcher matchId order session st =
     (case matchHost hostMatcher (originCountry order) of
        None \<Rightarrow> (Inl NoHostAvailable, st)
      | Some matchedHost \<Rightarrow>
          (case MatchCache_recordMatch
                  \<lparr>entry_id = matchId, entry_orderId = order_id order,
                   entry_hostId = host_id matchedHost\<rparr> session (matches st) of
             Inl e \<Rightarrow> (Inl e, st)
           | Inr cache \<Rightarrow> (Inr matchId, st\<lparr>matches := cache\<rparr>)))"



definition checkoutParams :: "EntityId \<Rightarrow> SessionCreateParams" where
  "checkoutParams matchId =
     \<lparr>payment_method_types = [''card''],
      line_items =
        [\<lparr>price_data =
            \<lparr>price_currency = ''usd'', unit_amount = 10000,
             product_data_name = ''Locly and Host Service Fee''\<rparr>,
          quantity = 1\<rparr>],
      req_client_reference_id = Some matchId,
      mode = ''payment'',
      success_url = ''https://news.ycombinator.com'',
      cancel_url = ''https://reddit.com'',
      req_metadata = None\<rparr>"

text \<open>
  \<open>stripe\<close> is the gateway's answer to a request: a session, or \<open>None\<close> when the call is
  rejected.
\<close>

definition matchOrderAndCheckout ::
  "HostMatcher \<Rightarrow> (SessionCreateParams \<Rightarrow> StripeCheckoutSession option) \<Rightarrow> EntityId \<Rightarrow>
     EntityId \<Rightarrow> ClientSession \<Rightarrow> AppState \<Rightarrow> (error + StripeCheckoutSession) \<times> AppState" where
  "matchOrderAndCheckout hostMatcher stripe newEntityId orderId session st =
     (case OrderRepository_findOrder orderId (orders st) of
        Inl e \<Rightarrow> (Inl e, st)
      | Inr order \<Rightarrow>
          (case serviceAvailabileOrThrow hostMatcher order of
             Inl e \<Rightarrow> (Inl e, emit ''order.rejected.service_availability'' st)
           | Inr _ \<Rightarrow>
               (case matchOrderToHost hostMatcher newEntityId order session st of
                  (Inl e, st1) \<Rightarrow> (Inl e, emit ''order.rejected.host_availability'' st1)
                | (Inr matchId, st1) \<Rightarrow>
                    (let st2 = st1\<lparr>checkoutRequests :=
                                     checkoutRequests st1 @ [checkoutParams matchId]\<rparr>
                     in case stripe (checkoutParams matchId) of
                          None \<Rightarrow> (Inl StripeError, st2)
                        | Some checkoutSession \<Rightarrow>
                            (Inr checkoutSession, emit ''order.awaiting_payment'' st2)))))"

text \<open>
  \<^verbatim>\<open>execute\<close> runs \<^verbatim>\<open>matchOrderAndCheckout\<close> in \<^verbatim>\<open>session.withTransaction\<close>: when the callback
  throws, the transaction is aborted and the writes made with the session are undone; the
  events and the gateway request are not part of it.
\<close>

definition ConfirmOrder_execute ::
  "HostMatcher \<Rightarrow> (SessionCreateParams \<Rightarrow> StripeCheckoutSession option) \<Rightarrow> EntityId \<Rightarrow>
     EntityId \<Rightarrow> ClientSession \<Rightarrow> AppState \<Rightarrow> (error + string) \<times> AppState" where
  "ConfirmOrder_execute hostMatcher stripe newEntityId orderId session st =
     (case matchOrderAndCheckout hostMatcher stripe newEntityId orderId session st of
        (Inl e, st') \<Rightarrow> (Inl e, st'\<lparr>matches := matches st\<rparr>)
      | (Inr checkoutSession, st') \<Rightarrow> (Inr (session_id checkoutSession), st'))"

text \<open>
  Modelled from the spec: the gateway carries the correlation payload of the request verbatim
  in the session of its \<^verbatim>\<open>checkout.session.completed\<close> event.
\<close>

definition gateway_session :: "string \<Rightarrow> SessionCreateParams \<Rightarrow> StripeCheckoutSession" where
  "gateway_session sid params =
     \<lparr>session_id = sid,
      client_reference_id = req_client_reference_id params,
      metadata = (case req_metadata params of None \<Rightarrow> Map.empty | Some m \<Rightarrow> m)\<rparr>"

definition checkout_session_completed :: "StripeCheckoutSession \<Rightarrow> StripeEvent" where
  "checkout_session_completed checkoutSession =
     \<lparr>event_type = ''checkout.session.completed'', data_object = checkoutSession\<rparr>"

text \<open>The setting of the examples: one drafted order from US to DE, one host in the US.\<close>

definition example_order :: Order where
  "example_order =
     \<lparr>order_id = ''o1'', customerId = ''c1'', originCountry = ''US'',
      destination = \<lparr>country = ''DE''\<rparr>, items = [], status = Drafted,
      shipmentCost = \<lparr>amount = 400, currency = ''usd''\<rparr>, finalShipmentCost = None,
      totalWeight = None, hostId = None, calculatorResultUrl = None\<rparr>"

definition example_state :: AppState where
  "example_state =
     \<lparr>orders = [''o1'' \<mapsto> example_order], matches = Map.empty, events = [],
      checkoutRequests = []\<rparr>"

definition example_hostMatcher :: HostMatcher where
  "example_hostMatcher =
     \<lparr>checkServiceAvailability = (\<lambda>origin dest. origin = ''US'' \<and> dest = ''DE''),
      matchHost = (\<lambda>origin. if origin = ''US'' then Some \<lparr>host_id = ''h1''\<rparr> else None)\<rparr>"

definition example_noHost :: HostMatcher where
  "example_noHost =
     \<lparr>checkServiceAvailability = (\<lambda>origin dest. True), matchHost = (\<lambda>origin. None)\<rparr>"

definition example_noService :: HostMatcher where
  "example_noService =
     \<lparr>checkServiceAvailability = (\<lambda>origin dest. False),
      matchHost = (\<lambda>origin. Some \<lparr>host_id = ''h1''\<rparr>)\<rparr>"

definition example_stripe :: "SessionCreateParams \<Rightarrow> StripeCheckoutSession option" where
  "example_stripe params = Some (gateway_session ''cs_test_1'' params)"

section \<open>Shipment info: \<^verbatim>\<open>SubmitShipmentInfo\<close>\<close>

record OrderFilter =
  f_orderId :: UUID
  f_status :: "OrderStatus option"
  f_hostId :: "UUID option"

text \<open>The properties of a \<^verbatim>\<open>setProperties\<close> call: a key of the object is \<open>Some\<close> value.\<close>

record OrderProperties =
  set_totalWeight :: "int option"
  set_finalShipmentCost :: "Cost option"
  set_status :: "OrderStatus option"
  set_calculatorResultUrl :: "string option"

text \<open>
  The order store of \<^verbatim>\<open>IOrderRepository\<close>, with a log of the calls made to the repository:
  each entry holds the arguments of the call, the transaction handle among them (\<open>None\<close>
  when the call was made without one).
\<close>

datatype RepositoryCall =
    FindOrderCall OrderFilter "ClientSession option"
  | SetPropertiesCall OrderFilter OrderProperties "ClientSession option"

record OrderDb =
  db_orders :: "UUID \<rightharpoonup> Order"
  calls :: "RepositoryCall list"

definition matchesFilter :: "OrderFilter \<Rightarrow> Order \<Rightarrow> bool" where
  "matchesFilter f order =
     ((case f_status f of None \<Rightarrow> True | Some s \<Rightarrow> status order = s) \<and>
      (case f_hostId f of None \<Rightarrow> True | Some h \<Rightarrow> hostId order = Some h))"

definition lookupOrder :: "OrderFilter \<Rightarrow> (UUID \<rightharpoonup> Order) \<Rightarrow> Order option" where
  "lookupOrder f store =
     (case store (f_orderId f) of
        None \<Rightarrow> None
      | Some order \<Rightarrow> if matchesFilter f order then Some order else None)"

text \<open>
  Modelled from the spec: \<^verbatim>\<open>IOrderRepository\<close> has no implementation in the sources.
  \<^verbatim>\<open>findOrder\<close> loads the order that the filter selects and fails with \<open>OrderNotFound\<close> if
  the filtered lookup misses.
\<close>

definition IOrderRepository_findOrder ::
  "OrderFilter \<Rightarrow> ClientSession option \<Rightarrow> OrderDb \<Rightarrow> (error + Order) \<times> OrderDb" where
  "IOrderRepository_findOrder f session db =
     (let db' = db\<lparr>calls := calls db @ [FindOrderCall f session]\<rparr>
      in case lookupOrder f (db_orders db) of
           None \<Rightarrow> (Inl OrderNotFound, db')
         | Some order \<Rightarrow> (Inr order, db'))"

definition applyProperties :: "OrderProperties \<Rightarrow> Order \<Rightarrow> Order" where
  "applyProperties props order =
     order
       \<lparr>totalWeight :=
          (case set_totalWeight props of None \<Rightarrow> totalWeight order | Some w \<Rightarrow> Some w),
        finalShipmentCost :=
          (case set_finalShipmentCost props of None \<Rightarrow> finalShipmentCost order | Some c \<Rightarrow> Some c),
        status := (case set_status props of None \<Rightarrow> status order | Some s \<Rightarrow> s),
        calculatorResultUrl :=
          (case set_calculatorResultUrl props of
             None \<Rightarrow> calculatorResultUrl order
           | Some u \<Rightarrow> Some u)\<rparr>"

text \<open>
  Modelled from the spec: \<^verbatim>\<open>setProperties\<close> is a single conditional update of the order that
  the filter selects; it fails when the filter selects none.
\<close>

definition IOrderRepository_setProperties ::
  "OrderFilter \<Rightarrow> OrderProperties \<Rightarrow> ClientSession option \<Rightarrow> OrderDb \<Rightarrow> (error + unit) \<times> OrderDb" where
  "IOrderRepository_setProperties f props session db =
     (let db' = db\<lparr>calls := calls db @ [SetPropertiesCall f props session]\<rparr>
      in case lookupOrder f (db_orders db) of
           None \<Rightarrow> (Inl OrderNotFound, db')
         | Some order \<Rightarrow>
             (Inr (), db'\<lparr>db_orders := (db_orders db)(f_orderId f \<mapsto> applyProperties props order)\<rparr>))"

record SubmitShipmentInfoPayload =
  p_orderId :: UUID
  p_hostId :: UUID
  p_totalWeight :: int
  p_shipmentCost :: Cost
  p_calculatorResultUrl :: "string option"

text \<open>
  The filter of \<^verbatim>\<open>getUnfinalizedItems\<close> keeps an item unless \<^verbatim>\<open>receivedDate && photos.length\<close>
  is truthy: a date object is truthy, an absent one is not, and a length is truthy when it
  is not 0.
\<close>

definition notFinalized :: "Item \<Rightarrow> bool" where
  "notFinalized item = (\<not> (receivedDate item \<noteq> None \<and> length (photos item) \<noteq> 0))"

definition getUnfinalizedItems :: "UUID \<Rightarrow> UUID \<Rightarrow> OrderDb \<Rightarrow> (error + Item list) \<times> OrderDb" where
  "getUnfinalizedItems orderId hostId' db =
     (case IOrderRepository_findOrder
             \<lparr>f_orderId = orderId, f_status = Some Confirmed, f_hostId = Some hostId'\<rparr> None db of
        (Inl e, db') \<Rightarrow> (Inl e, db')
      | (Inr order, db') \<Rightarrow> (Inr (filter notFinalized (items order)), db'))"

text \<open>A string is truthy when it is there and not empty.\<close>

definition truthy :: "string option \<Rightarrow> bool" where
  "truthy v = (case v of None \<Rightarrow> False | Some str \<Rightarrow> str \<noteq> [])"

definition finalizeOrder ::
  "SubmitShipmentInfoPayload \<Rightarrow> ClientSession \<Rightarrow> OrderDb \<Rightarrow> (error + unit) \<times> OrderDb" where
  "finalizeOrder payload mongoTransactionSession db =
     (case getUnfinalizedItems (p_orderId payload) (p_hostId payload) db of
        (Inl e, db') \<Rightarrow> (Inl e, db')
      | (Inr notFinalizedItems, db') \<Rightarrow>
          (let notFinalizedItemIds = map item_id notFinalizedItems
           in if length notFinalizedItems \<noteq> 0
              then (Inl (IncompleteItems (p_orderId payload) notFinalizedItemIds), db')
              else IOrderRepository_setProperties
                     \<lparr>f_orderId = p_orderId payload, f_status = None, f_hostId = None\<rparr>
                     \<lparr>set_totalWeight = Some (p_totalWeight payload),
                      set_finalShipmentCost = Some (p_shipmentCost payload),
                      set_status = Some Finalized,
                      set_calculatorResultUrl =
                        (if truthy (p_calculatorResultUrl payload)
                         then p_calculatorResultUrl payload else None)\<rparr>
                     (Some mongoTransactionSession) db'))"

text \<open>
  \<^verbatim>\<open>execute\<close> runs \<^verbatim>\<open>finalizeOrder\<close> in \<^verbatim>\<open>withTransaction\<close>, with the session of the
  transaction: when the callback throws, the writes made with the session are undone.
\<close>

definition SubmitShipmentInfo_execute ::
  "SubmitShipmentInfoPayload \<Rightarrow> ClientSession \<Rightarrow> OrderDb \<Rightarrow> (error + unit) \<times> OrderDb" where
  "SubmitShipmentInfo_execute finalizeOrderRequest sessionWithTransaction db =
     (case finalizeOrder finalizeOrderRequest sessionWithTransaction db of
        (Inl e, db') \<Rightarrow> (Inl e, db'\<lparr>db_orders := db_orders db\<rparr>)
      | (Inr u, db') \<Rightarrow> (Inr u, db'))"

text \<open>The examples: a confirmed order of host \<open>h1\<close> with two items, one of them not received.\<close>

definition example_item :: "UUID \<Rightarrow> nat option \<Rightarrow> string list \<Rightarrow> Item" where
  "example_item i d ps =
     \<lparr>item_id = i, title = ''Laptop'', storeName = ''Amazon'', receivedDate = d, photos = ps\<rparr>"

definition example_confirmed :: "Item list \<Rightarrow> Order" where
  "example_confirmed its =
     example_order\<lparr>items := its, status := Confirmed, hostId := Some ''h1''\<rparr>"

definition example_db :: "Item list \<Rightarrow> OrderDb" where
  "example_db its = \<lparr>db_orders = [''o1'' \<mapsto> example_confirmed its], calls = []\<rparr>"

definition example_payload :: "string option \<Rightarrow> SubmitShipmentInfoPayload" where
  "example_payload url =
     \<lparr>p_orderId = ''o1'', p_hostId = ''h1'', p_totalWeight = 1200,
      p_shipmentCost = \<lparr>amount = 2500, currency = ''usd''\<rparr>, p_calculatorResultUrl = url\<rparr>"

section \<open>Properties\<close>

subsection \<open>Auxiliary facts\<close>




text \<open>
  The adapter of the other ledger port, \<^verbatim>\<open>MatchRecorder\<close>, which \<^verbatim>\<open>ConfirmOrder\<close> does not
  call, keys a match by the order id.
\<close>

lemma recordMatch_returns_orderId:
  "recordMatch matchToMongoDocument oid hid session coll = Inr (mid, coll') \<Longrightarrow> mid = oid"
  by (auto simp: recordMatch_def Let_def split: sum.splits)

lemma matchOrderAndCheckout_rejected:
  "matchOrderAndCheckout hm stripe newId oid session st = (Inl e, st') \<Longrightarrow>
   e = ServiceUnavailable \<or> e = NoHostAvailable \<Longrightarrow>
   st' = emit (if e = ServiceUnavailable then ''order.rejected.service_availability''
               else ''order.rejected.host_availability'') st"
  by (auto simp: matchOrderAndCheckout_def OrderRepository_findOrder_def
        serviceAvailabileOrThrow_def matchOrderToHost_def MatchCache_recordMatch_def Let_def
        split: option.splits sum.splits if_splits prod.splits)

lemma notFinalized_iff: "notFinalized i = (receivedDate i = None \<or> photos i = [])"
  by (auto simp: notFinalized_def)

lemma filter_notFinalized:
  "filter notFinalized its = filter (\<lambda>i. receivedDate i = None \<or> photos i = []) its"
  by (simp add: notFinalized_iff [abs_def])

lemma getUnfinalizedItems_found:
  "db_orders db oid = Some order \<Longrightarrow> status order = Confirmed \<Longrightarrow> hostId order = Some hid \<Longrightarrow>
   getUnfinalizedItems oid hid db =
     (Inr (filter notFinalized (items order)),
      db\<lparr>calls := calls db @
        [FindOrderCall \<lparr>f_orderId = oid, f_status = Some Confirmed, f_hostId = Some hid\<rparr> None]\<rparr>)"
  by (simp add: getUnfinalizedItems_def IOrderRepository_findOrder_def lookupOrder_def
        matchesFilter_def)

lemma execute_incomplete:
  assumes "db_orders db (p_orderId p) = Some order" "status order = Confirmed"
    "hostId order = Some (p_hostId p)" "filter notFinalized (items order) \<noteq> []"
  shows "fst (SubmitShipmentInfo_execute p s db) =
           Inl (IncompleteItems (p_orderId p) (map item_id (filter notFinalized (items order))))"
    and "db_orders (snd (SubmitShipmentInfo_execute p s db)) = db_orders db"
  using assms
  by (simp_all add: SubmitShipmentInfo_execute_def finalizeOrder_def getUnfinalizedItems_found)

lemma execute_complete:
  assumes "db_orders db (p_orderId p) = Some order" "status order = Confirmed"
    "hostId order = Some (p_hostId p)" "filter notFinalized (items order) = []"
  shows "fst (SubmitShipmentInfo_execute p s db) = Inr ()"
    and "db_orders (snd (SubmitShipmentInfo_execute p s db)) =
           (db_orders db)(p_orderId p \<mapsto>
              order\<lparr>totalWeight := Some (p_totalWeight p),
                    finalShipmentCost := Some (p_shipmentCost p),
                    status := Finalized,
                    calculatorResultUrl :=
                      (case p_calculatorResultUrl p of
                         None \<Rightarrow> calculatorResultUrl order
                       | Some u \<Rightarrow> if u = [] then calculatorResultUrl order else Some u)\<rparr>)"
  using assms
  by (simp_all add: SubmitShipmentInfo_execute_def finalizeOrder_def getUnfinalizedItems_found
        IOrderRepository_setProperties_def lookupOrder_def matchesFilter_def applyProperties_def
        truthy_def split: option.splits)


subsection \<open>Customer linkage, dispatch and ledger\<close>

text \<open>
  C10. \<^verbatim>\<open>addOrderToCustomer\<close> appends the order id to the customer's \<^verbatim>\<open>orderIds\<close> whatever
  the list holds already. With a customer id that matches no stored customer it completes
  and changes nothing; called twice with the same customer and order it appends the order
  id twice, so the list ends with a duplicate entry.
\<close>

theorem addOrderToCustomer_unconditional:
  "(coll (drafted_customerId order) = None \<longrightarrow>
      addOrderToCustomer order t coll = Inr coll) \<and>
   (coll (drafted_customerId order) = Some d \<longrightarrow>
      addOrderToCustomer order t coll =
        Inr (coll(drafted_customerId order \<mapsto> d\<lparr>orderIds := orderIds d @ [drafted_id order]\<rparr>)) \<and>
      (case addOrderToCustomer order t coll of
         Inl e \<Rightarrow> Inl e
       | Inr coll' \<Rightarrow> addOrderToCustomer order t' coll') =
        Inr (coll(drafted_customerId order \<mapsto>
               d\<lparr>orderIds := orderIds d @ [drafted_id order, drafted_id order]\<rparr>)))"
  by (simp add: addOrderToCustomer_def updateOne_push_orderIds_def)

theorem addOrderToCustomer_unconditional_witness:
  "addOrderToCustomer \<lparr>drafted_id = ''o1'', drafted_customerId = ''nobody''\<rparr> None
     [''c1'' \<mapsto> \<lparr>customer_id = ''c1'', orderIds = [''o1'']\<rparr>] =
     Inr [''c1'' \<mapsto> \<lparr>customer_id = ''c1'', orderIds = [''o1'']\<rparr>] \<and>
   (case addOrderToCustomer \<lparr>drafted_id = ''o1'', drafted_customerId = ''c1''\<rparr> None
           [''c1'' \<mapsto> \<lparr>customer_id = ''c1'', orderIds = []\<rparr>] of
      Inl e \<Rightarrow> Inl e
    | Inr coll' \<Rightarrow> addOrderToCustomer \<lparr>drafted_id = ''o1'', drafted_customerId = ''c1''\<rparr> None coll') =
     Inr [''c1'' \<mapsto> \<lparr>customer_id = ''c1'', orderIds = [''o1'', ''o1'']\<rparr>]"
  using addOrderToCustomer_unconditional
          [where coll = "[''c1'' \<mapsto> \<lparr>customer_id = ''c1'', orderIds = [''o1'']\<rparr>]"
             and order = "\<lparr>drafted_id = ''o1'', drafted_customerId = ''nobody''\<rparr>"
             and t = None]
        addOrderToCustomer_unconditional
          [where coll = "[''c1'' \<mapsto> \<lparr>customer_id = ''c1'', orderIds = []\<rparr>]"
             and order = "\<lparr>drafted_id = ''o1'', drafted_customerId = ''c1''\<rparr>"
             and d = "\<lparr>customer_id = ''c1'', orderIds = []\<rparr>"
             and t = None and t' = None]
  by (simp add: addOrderToCustomer_def updateOne_push_orderIds_def)

text \<open>
  C7. For a checkout-completed event the dispatcher hands a payload with \<^verbatim>\<open>feeType\<close> Service
  to the Confirm-Order handler and one with \<^verbatim>\<open>feeType\<close> Shipment to the Pay-Shipment
  handler: its outcome is that handler's outcome. With any other \<^verbatim>\<open>feeType\<close>, or none, it
  fails with \<open>UnrecognizedWebhookPayload\<close> and calls neither handler: the state is as it was,
  whatever the handlers are.
\<close>

theorem StripeCheckoutWebhook_routing:
  "(metadata (data_object event) ''feeType'' = Some FeeType_Service \<longrightarrow>
      StripeCheckoutWebhook_execute confirm pay event s = confirm (metadata (data_object event)) s) \<and>
   (metadata (data_object event) ''feeType'' = Some FeeType_Shipment \<longrightarrow>
      StripeCheckoutWebhook_execute confirm pay event s = pay (metadata (data_object event)) s) \<and>
   (metadata (data_object event) ''feeType'' \<noteq> Some FeeType_Service \<and>
    metadata (data_object event) ''feeType'' \<noteq> Some FeeType_Shipment \<longrightarrow>
      StripeCheckoutWebhook_execute confirm pay event s = (Inl UnrecognizedWebhookPayload, s))"
  by (cases "metadata (data_object event) ''feeType''")
     (simp_all add: StripeCheckoutWebhook_execute_def FeeType_Service_def FeeType_Shipment_def)

theorem StripeCheckoutWebhook_routing_witness:
  "StripeCheckoutWebhook_execute example_confirmOrderHandler example_payShipmentHandler
     (example_event [''feeType'' \<mapsto> ''service'', ''matchId'' \<mapsto> ''m1'']) [] =
     (Inr ''confirm-order'', [''confirm-order'']) \<and>
   StripeCheckoutWebhook_execute example_confirmOrderHandler example_payShipmentHandler
     (example_event [''feeType'' \<mapsto> ''shipment'']) [] =
     (Inr ''pay-shipment'', [''pay-shipment'']) \<and>
   StripeCheckoutWebhook_execute example_confirmOrderHandler example_payShipmentHandler
     (example_event [''feeType'' \<mapsto> ''refund'']) [] = (Inl UnrecognizedWebhookPayload, []) \<and>
   StripeCheckoutWebhook_execute example_confirmOrderHandler example_payShipmentHandler
     (example_event Map.empty) [] = (Inl UnrecognizedWebhookPayload, [])"
  using StripeCheckoutWebhook_routing
          [where event = "example_event [''feeType'' \<mapsto> ''service'', ''matchId'' \<mapsto> ''m1'']"
             and confirm = example_confirmOrderHandler and pay = example_payShipmentHandler
             and s = "[]"]
        StripeCheckoutWebhook_routing
          [where event = "example_event [''feeType'' \<mapsto> ''shipment'']"
             and confirm = example_confirmOrderHandler and pay = example_payShipmentHandler
             and s = "[]"]
        StripeCheckoutWebhook_routing
          [where event = "example_event [''feeType'' \<mapsto> ''refund'']"
             and confirm = example_confirmOrderHandler and pay = example_payShipmentHandler
             and s = "[]"]
        StripeCheckoutWebhook_routing
          [where event = "example_event Map.empty"
             and confirm = example_confirmOrderHandler and pay = example_payShipmentHandler
             and s = "[]"]
  by (simp add: example_event_def example_confirmOrderHandler_def example_payShipmentHandler_def
        FeeType_Service_def FeeType_Shipment_def)

text \<open>
  C2. \<^verbatim>\<open>retrieveAndDeleteMatch\<close> has no branch for a missing match. On a ledger that holds no
  match it deletes nothing and returns what the mapper makes of \<^verbatim>\<open>null\<close>; an exception
  \<open>MatchNotFound\<close> reaches the caller only when the mapper itself raises it. \<^verbatim>\<open>findMatch\<close>,
  on the same ledger and with the same mapper, raises \<open>MatchNotFound\<close> by its own check.
\<close>

theorem retrieveAndDeleteMatch_absent_unguarded:
  "retrieveAndDeleteMatch mongoDocumentToMatch matchId session Map.empty =
     (mongoDocumentToMatch None, Map.empty) \<and>
   findMatch mongoDocumentToMatch oid hid session Map.empty = Inl MatchNotFound \<and>
   retrieveAndDeleteMatch example_mongoDocumentToMatch ''m1'' None Map.empty =
     (Inl TypeError, Map.empty)"
  by (simp add: retrieveAndDeleteMatch_def findMatch_def findOne_def deleteOne_def
        example_mongoDocumentToMatch_def)

text \<open>
  C1. Of two consume calls for one match id the first gets the stored document mapped and
  deletes it; the second, and every later one, finds nothing and returns what the mapper
  makes of \<^verbatim>\<open>null\<close>, not a \<open>MatchNotFound\<close> raised by the adapter.
\<close>

theorem retrieveAndDeleteMatch_repeated:
  "retrieveAndDeleteMatch mongoDocumentToMatch matchId session coll =
     (mongoDocumentToMatch (coll matchId), coll(matchId := None)) \<and>
   retrieveAndDeleteMatch mongoDocumentToMatch matchId session'
     (snd (retrieveAndDeleteMatch mongoDocumentToMatch matchId session coll)) =
     (mongoDocumentToMatch None, coll(matchId := None)) \<and>
   fst (retrieveAndDeleteMatch example_mongoDocumentToMatch ''o1'' None
     (snd (retrieveAndDeleteMatch example_mongoDocumentToMatch ''o1'' None
        [''o1'' \<mapsto> \<lparr>doc_id = ''o1'', doc_hostId = ''h1''\<rparr>]))) = Inl TypeError"
  by (simp add: retrieveAndDeleteMatch_def findOne_def deleteOne_def
        example_mongoDocumentToMatch_def)

subsection \<open>The confirmation run\<close>



text \<open>
  C5. When the matching phase fails with \<open>ServiceUnavailable\<close> or \<open>NoHostAvailable\<close>, the
  run has emitted the rejection event of that failure and nothing else, and has written
  nothing: the order store and the match ledger are as before, no request went to the
  gateway, and \<^verbatim>\<open>execute\<close> fails with the same error in the same state.
\<close>

theorem matching_failure_no_mutation:
  "matchOrderAndCheckout hm stripe newId oid session st = (Inl e, st') \<and>
   (e = ServiceUnavailable \<or> e = NoHostAvailable) \<longrightarrow>
     events st' = events st @
       [if e = ServiceUnavailable then ''order.rejected.service_availability''
        else ''order.rejected.host_availability''] \<and>
     orders st' = orders st \<and> matches st' = matches st \<and>
     checkoutRequests st' = checkoutRequests st \<and>
     ConfirmOrder_execute hm stripe newId oid session st = (Inl e, st')"
proof (intro impI, elim conjE)
  assume run: "matchOrderAndCheckout hm stripe newId oid session st = (Inl e, st')"
    and e: "e = ServiceUnavailable \<or> e = NoHostAvailable"
  from matchOrderAndCheckout_rejected [OF run e]
  have st': "st' = emit (if e = ServiceUnavailable then ''order.rejected.service_availability''
                        else ''order.rejected.host_availability'') st" .
  then have frame: "orders st' = orders st" "matches st' = matches st"
      "checkoutRequests st' = checkoutRequests st"
    by (simp_all add: emit_def)
  have ev: "events st' = events st @
       [if e = ServiceUnavailable then ''order.rejected.service_availability''
        else ''order.rejected.host_availability'']"
    using st' by (simp add: emit_def)
  have "st'\<lparr>matches := matches st\<rparr> = st'" using frame by simp
  then have "ConfirmOrder_execute hm stripe newId oid session st = (Inl e, st')"
    by (simp add: ConfirmOrder_execute_def run)
  with frame ev show "events st' = events st @
       [if e = ServiceUnavailable then ''order.rejected.service_availability''
        else ''order.rejected.host_availability''] \<and>
     orders st' = orders st \<and> matches st' = matches st \<and>
     checkoutRequests st' = checkoutRequests st \<and>
     ConfirmOrder_execute hm stripe newId oid session st = (Inl e, st')" by simp
qed

theorem matching_failure_no_mutation_witness:
  "matchOrderAndCheckout example_noService example_stripe ''m1'' ''o1'' 0 example_state =
     (Inl ServiceUnavailable, example_state\<lparr>events := [''order.rejected.service_availability'']\<rparr>) \<and>
   ConfirmOrder_execute example_noService example_stripe ''m1'' ''o1'' 0 example_state =
     (Inl ServiceUnavailable, example_state\<lparr>events := [''order.rejected.service_availability'']\<rparr>) \<and>
   matchOrderAndCheckout example_noHost example_stripe ''m1'' ''o1'' 0 example_state =
     (Inl NoHostAvailable, example_state\<lparr>events := [''order.rejected.host_availability'']\<rparr>) \<and>
   ConfirmOrder_execute example_noHost example_stripe ''m1'' ''o1'' 0 example_state =
     (Inl NoHostAvailable, example_state\<lparr>events := [''order.rejected.host_availability'']\<rparr>)"
proof -
  have r1: "matchOrderAndCheckout example_noService example_stripe ''m1'' ''o1'' 0 example_state =
     (Inl ServiceUnavailable, example_state\<lparr>events := [''order.rejected.service_availability'']\<rparr>)"
    by (simp add: matchOrderAndCheckout_def OrderRepository_findOrder_def
          serviceAvailabileOrThrow_def emit_def example_noService_def example_state_def
          example_order_def)
  have r2: "matchOrderAndCheckout example_noHost example_stripe ''m1'' ''o1'' 0 example_state =
     (Inl NoHostAvailable, example_state\<lparr>events := [''order.rejected.host_availability'']\<rparr>)"
    by (simp add: matchOrderAndCheckout_def OrderRepository_findOrder_def
          serviceAvailabileOrThrow_def matchOrderToHost_def emit_def example_noHost_def
          example_state_def example_order_def)
  from matching_failure_no_mutation
         [where hm = example_noService and stripe = example_stripe and newId = "''m1''"
            and oid = "''o1''" and session = 0 and st = example_state
            and e = ServiceUnavailable
            and st' = "example_state\<lparr>events := [''order.rejected.service_availability'']\<rparr>"]
       matching_failure_no_mutation
         [where hm = example_noHost and stripe = example_stripe and newId = "''m1''"
            and oid = "''o1''" and session = 0 and st = example_state
            and e = NoHostAvailable
            and st' = "example_state\<lparr>events := [''order.rejected.host_availability'']\<rparr>"]
       r1 r2
  show ?thesis by simp
qed

text \<open>
  C6. A run of \<^verbatim>\<open>execute\<close> that returns a checkout session id leaves the order store as it
  was, every field and the status of the order included; the match ledger has gained the
  one record of this attempt, under an id it did not hold before.
\<close>

theorem confirm_success_frame:
  "ConfirmOrder_execute hm stripe newId oid session st = (Inr checkoutId, st') \<longrightarrow>
     orders st' = orders st \<and> matches st newId = None \<and>
     (\<exists>order host. orders st oid = Some order \<and>
        matchHost hm (originCountry order) = Some host \<and>
        matches st' = (matches st)(newId \<mapsto>
          \<lparr>entry_id = newId, entry_orderId = order_id order, entry_hostId = host_id host\<rparr>))"
  by (auto simp: ConfirmOrder_execute_def matchOrderAndCheckout_def OrderRepository_findOrder_def
        serviceAvailabileOrThrow_def matchOrderToHost_def MatchCache_recordMatch_def Let_def emit_def
        split: option.splits sum.splits if_splits prod.splits)

theorem confirm_success_frame_witness:
  "ConfirmOrder_execute example_hostMatcher example_stripe ''m1'' ''o1'' 0 example_state =
     (Inr ''cs_test_1'',
      \<lparr>orders = [''o1'' \<mapsto> example_order],
       matches = [''m1'' \<mapsto> \<lparr>entry_id = ''m1'', entry_orderId = ''o1'', entry_hostId = ''h1''\<rparr>],
       events = [''order.awaiting_payment''],
       checkoutRequests = [checkoutParams ''m1'']\<rparr>) \<and>
   orders \<lparr>orders = [''o1'' \<mapsto> example_order],
       matches = [''m1'' \<mapsto> \<lparr>entry_id = ''m1'', entry_orderId = ''o1'', entry_hostId = ''h1''\<rparr>],
       events = [''order.awaiting_payment''],
       checkoutRequests = [checkoutParams ''m1'']\<rparr> = orders example_state \<and>
   matches example_state ''m1'' = None"
proof -
  let ?st' = "\<lparr>orders = [''o1'' \<mapsto> example_order],
       matches = [''m1'' \<mapsto> \<lparr>entry_id = ''m1'', entry_orderId = ''o1'', entry_hostId = ''h1''\<rparr>],
       events = [''order.awaiting_payment''],
       checkoutRequests = [checkoutParams ''m1'']\<rparr>"
  have run: "ConfirmOrder_execute example_hostMatcher example_stripe ''m1'' ''o1'' 0 example_state =
     (Inr ''cs_test_1'', ?st')"
    by (simp add: ConfirmOrder_execute_def matchOrderAndCheckout_def OrderRepository_findOrder_def
          serviceAvailabileOrThrow_def matchOrderToHost_def MatchCache_recordMatch_def emit_def
          example_hostMatcher_def example_stripe_def example_state_def example_order_def
          gateway_session_def)
  from confirm_success_frame
         [where hm = example_hostMatcher and stripe = example_stripe and newId = "''m1''"
            and oid = "''o1''" and session = 0 and st = example_state
            and checkoutId = "''cs_test_1''" and st' = ?st'] run
  show ?thesis by simp
qed

text \<open>
  C8. The session that a successful run requests charges the fixed fee of 10000 cents and
  carries the match id as \<^verbatim>\<open>client_reference_id\<close>, but it has no metadata: no \<^verbatim>\<open>feeType\<close>
  reaches the gateway. The dispatcher, given the completed session of that very request,
  finds no \<^verbatim>\<open>feeType\<close> and fails with \<open>UnrecognizedWebhookPayload\<close>.
\<close>

theorem checkout_session_payload:
  "fst (ConfirmOrder_execute example_hostMatcher example_stripe ''m1'' ''o1'' 0 example_state) =
     Inr ''cs_test_1'' \<and>
   checkoutRequests
     (snd (ConfirmOrder_execute example_hostMatcher example_stripe ''m1'' ''o1'' 0 example_state)) =
     [checkoutParams ''m1''] \<and>
   map unit_amount (map price_data (line_items (checkoutParams ''m1''))) = [10000] \<and>
   req_client_reference_id (checkoutParams ''m1'') = Some ''m1'' \<and>
   req_metadata (checkoutParams ''m1'') = None \<and>
   metadata (gateway_session ''cs_test_1'' (checkoutParams ''m1'')) ''feeType'' = None \<and>
   StripeCheckoutWebhook_execute example_confirmOrderHandler example_payShipmentHandler
     (checkout_session_completed (gateway_session ''cs_test_1'' (checkoutParams ''m1''))) [] =
     (Inl UnrecognizedWebhookPayload, [])"
  by (simp add: ConfirmOrder_execute_def matchOrderAndCheckout_def OrderRepository_findOrder_def
        serviceAvailabileOrThrow_def matchOrderToHost_def MatchCache_recordMatch_def emit_def
        example_hostMatcher_def example_stripe_def example_state_def example_order_def
        checkoutParams_def gateway_session_def checkout_session_completed_def
        StripeCheckoutWebhook_execute_def)

subsection \<open>The shipment-info finalizer\<close>

text \<open>
  C4. For an order in status Confirmed and a request by its assigned host, \<^verbatim>\<open>execute\<close>
  fails if and only if some item lacks \<^verbatim>\<open>receivedDate\<close> or has no photo, and then the error
  is \<open>IncompleteItems\<close> with exactly the ids of those items, in order, and the order store
  is unchanged; it succeeds if and only if every item is complete, and then the order has
  status Finalized, the total weight and the final shipment cost of the request, and the
  calculator-result URL of the request when one is given (a non-empty string).
\<close>

theorem finalize_gate:
  "db_orders db (p_orderId p) = Some order \<and> status order = Confirmed \<and>
   hostId order = Some (p_hostId p) \<longrightarrow>
     ((\<exists>e. fst (SubmitShipmentInfo_execute p s db) = Inl e) =
        (\<exists>i \<in> set (items order). receivedDate i = None \<or> photos i = [])) \<and>
     ((fst (SubmitShipmentInfo_execute p s db) = Inr ()) =
        (\<forall>i \<in> set (items order). receivedDate i \<noteq> None \<and> photos i \<noteq> [])) \<and>
     ((\<exists>i \<in> set (items order). receivedDate i = None \<or> photos i = []) \<longrightarrow>
        fst (SubmitShipmentInfo_execute p s db) =
          Inl (IncompleteItems (p_orderId p)
                 (map item_id (filter (\<lambda>i. receivedDate i = None \<or> photos i = []) (items order)))) \<and>
        db_orders (snd (SubmitShipmentInfo_execute p s db)) = db_orders db) \<and>
     ((\<forall>i \<in> set (items order). receivedDate i \<noteq> None \<and> photos i \<noteq> []) \<longrightarrow>
        db_orders (snd (SubmitShipmentInfo_execute p s db)) =
          (db_orders db)(p_orderId p \<mapsto>
             order\<lparr>totalWeight := Some (p_totalWeight p),
                   finalShipmentCost := Some (p_shipmentCost p),
                   status := Finalized,
                   calculatorResultUrl :=
                     (case p_calculatorResultUrl p of
                        None \<Rightarrow> calculatorResultUrl order
                      | Some u \<Rightarrow> if u = [] then calculatorResultUrl order else Some u)\<rparr>))"
proof (intro impI, elim conjE)
  assume found: "db_orders db (p_orderId p) = Some order" "status order = Confirmed"
    "hostId order = Some (p_hostId p)"
  let ?bad = "\<exists>i \<in> set (items order). receivedDate i = None \<or> photos i = []"
  have empty_iff: "(filter notFinalized (items order) = []) = (\<not> ?bad)"
    by (auto simp: filter_empty_conv notFinalized_iff)
  show "((\<exists>e. fst (SubmitShipmentInfo_execute p s db) = Inl e) = ?bad) \<and>
     ((fst (SubmitShipmentInfo_execute p s db) = Inr ()) =
        (\<forall>i \<in> set (items order). receivedDate i \<noteq> None \<and> photos i \<noteq> [])) \<and>
     (?bad \<longrightarrow>
        fst (SubmitShipmentInfo_execute p s db) =
          Inl (IncompleteItems (p_orderId p)
                 (map item_id (filter (\<lambda>i. receivedDate i = None \<or> photos i = []) (items order)))) \<and>
        db_orders (snd (SubmitShipmentInfo_execute p s db)) = db_orders db) \<and>
     ((\<forall>i \<in> set (items order). receivedDate i \<noteq> None \<and> photos i \<noteq> []) \<longrightarrow>
        db_orders (snd (SubmitShipmentInfo_execute p s db)) =
          (db_orders db)(p_orderId p \<mapsto>
             order\<lparr>totalWeight := Some (p_totalWeight p),
                   finalShipmentCost := Some (p_shipmentCost p),
                   status := Finalized,
                   calculatorResultUrl :=
                     (case p_calculatorResultUrl p of
                        None \<Rightarrow> calculatorResultUrl order
                      | Some u \<Rightarrow> if u = [] then calculatorResultUrl order else Some u)\<rparr>))"
  proof (cases ?bad)
    case True
    then have ne: "filter notFinalized (items order) \<noteq> []" using empty_iff by simp
    from execute_incomplete [OF found ne, of s] True show ?thesis
      by (auto simp: filter_notFinalized)
  next
    case False
    then have em: "filter notFinalized (items order) = []" using empty_iff by simp
    from execute_complete [OF found em, of s] False show ?thesis
      by auto
  qed
qed

theorem finalize_gate_witness:
  "fst (SubmitShipmentInfo_execute (example_payload (Some ''https://calc/r1'')) 7
          (example_db [example_item ''i1'' (Some 5) [''p.jpg''], example_item ''i2'' None [''q.jpg'']])) =
     Inl (IncompleteItems ''o1'' [''i2'']) \<and>
   db_orders (snd (SubmitShipmentInfo_execute (example_payload (Some ''https://calc/r1'')) 7
          (example_db [example_item ''i1'' (Some 5) [''p.jpg''], example_item ''i2'' None [''q.jpg'']]))) =
     db_orders (example_db [example_item ''i1'' (Some 5) [''p.jpg''], example_item ''i2'' None [''q.jpg'']]) \<and>
   fst (SubmitShipmentInfo_execute (example_payload (Some ''https://calc/r1'')) 7
          (example_db [example_item ''i1'' (Some 5) [''p.jpg'']])) = Inr () \<and>
   db_orders (snd (SubmitShipmentInfo_execute (example_payload (Some ''https://calc/r1'')) 7
          (example_db [example_item ''i1'' (Some 5) [''p.jpg'']]))) =
     [''o1'' \<mapsto> (example_confirmed [example_item ''i1'' (Some 5) [''p.jpg'']])
        \<lparr>totalWeight := Some 1200,
         finalShipmentCost := Some \<lparr>amount = 2500, currency = ''usd''\<rparr>,
         status := Finalized, calculatorResultUrl := Some ''https://calc/r1''\<rparr>]"
  using finalize_gate
          [where db = "example_db [example_item ''i1'' (Some 5) [''p.jpg''], example_item ''i2'' None [''q.jpg'']]"
             and p = "example_payload (Some ''https://calc/r1'')" and s = 7
             and order = "example_confirmed [example_item ''i1'' (Some 5) [''p.jpg''], example_item ''i2'' None [''q.jpg'']]"]
        finalize_gate
          [where db = "example_db [example_item ''i1'' (Some 5) [''p.jpg'']]"
             and p = "example_payload (Some ''https://calc/r1'')" and s = 7
             and order = "example_confirmed [example_item ''i1'' (Some 5) [''p.jpg'']]"]
  by (simp add: example_db_def example_payload_def example_confirmed_def example_item_def
        example_order_def)

text \<open>
  C9. The first repository call of \<^verbatim>\<open>finalizeOrder\<close> is the filtered \<^verbatim>\<open>findOrder\<close> of
  \<^verbatim>\<open>getUnfinalizedItems\<close>, and it is made without the transaction handle; only
  \<^verbatim>\<open>setProperties\<close> receives the handle.
\<close>

theorem findOrder_without_session:
  "take (Suc (length (calls db))) (calls (snd (finalizeOrder p session db))) =
     calls db @
       [FindOrderCall
          \<lparr>f_orderId = p_orderId p, f_status = Some Confirmed, f_hostId = Some (p_hostId p)\<rparr>
          None] \<and>
   calls (snd (SubmitShipmentInfo_execute (example_payload None) 7
                 (example_db [example_item ''i1'' (Some 5) [''p.jpg'']]))) =
     [FindOrderCall \<lparr>f_orderId = ''o1'', f_status = Some Confirmed, f_hostId = Some ''h1''\<rparr> None,
      SetPropertiesCall \<lparr>f_orderId = ''o1'', f_status = None, f_hostId = None\<rparr>
        \<lparr>set_totalWeight = Some 1200,
         set_finalShipmentCost = Some \<lparr>amount = 2500, currency = ''usd''\<rparr>,
         set_status = Some Finalized, set_calculatorResultUrl = None\<rparr> (Some 7)]"
proof
  show "take (Suc (length (calls db))) (calls (snd (finalizeOrder p session db))) =
     calls db @
       [FindOrderCall
          \<lparr>f_orderId = p_orderId p, f_status = Some Confirmed, f_hostId = Some (p_hostId p)\<rparr>
          None]"
    by (simp add: finalizeOrder_def getUnfinalizedItems_def IOrderRepository_findOrder_def
          IOrderRepository_setProperties_def Let_def split: option.splits)
next
  show "calls (snd (SubmitShipmentInfo_execute (example_payload None) 7
                 (example_db [example_item ''i1'' (Some 5) [''p.jpg'']]))) =
     [FindOrderCall \<lparr>f_orderId = ''o1'', f_status = Some Confirmed, f_hostId = Some ''h1''\<rparr> None,
      SetPropertiesCall \<lparr>f_orderId = ''o1'', f_status = None, f_hostId = None\<rparr>
        \<lparr>set_totalWeight = Some 1200,
         set_finalShipmentCost = Some \<lparr>amount = 2500, currency = ''usd''\<rparr>,
         set_status = Some Finalized, set_calculatorResultUrl = None\<rparr> (Some 7)]"
    by (simp add: SubmitShipmentInfo_execute_def finalizeOrder_def getUnfinalizedItems_def
          IOrderRepository_findOrder_def IOrderRepository_setProperties_def lookupOrder_def
          matchesFilter_def notFinalized_def truthy_def applyProperties_def
          example_db_def example_payload_def example_confirmed_def example_item_def
          example_order_def)
qed

end
